theory Spec2Isabelle
  imports Complex_Main "HOL-Library.Word"
begin

section \<open>The TCP adapter: data model\<close>

text \<open>
  The adapter class \<^verbatim>\<open>TCPAdapter\<close> owns one outbound connection and reconnects in an
  asynchronous loop. The two enums are taken over as they are declared.
\<close>

datatype TCPAdapterConnectionStatus = DISCONNECTED | CONNECTING | CONNECTED

datatype TCPAdapterConnectionDetails =
  NO_ERROR | UNKNOWN_ERROR | ECONNRESET | ECONNREFUSED | ETIMEDOUT | INTERRUPTED

text \<open>
  A JavaScript number is either \<^verbatim>\<open>NaN\<close> or a value. Durations are differences of
  \<^verbatim>\<open>performance.now()\<close> readings; they are taken as reals, so the rounding of
  double arithmetic is not part of the model.
\<close>

datatype number = NaN | Num real

text \<open>
  A thrown value: an instance of \<^verbatim>\<open>Error\<close> with its \<^verbatim>\<open>name\<close>, or anything else.
\<close>

datatype thrown = Error string | Other_value

type_synonym bytes = "8 word list"

record TCPAdapterOptions =
  opt_host :: string
  opt_port :: nat
  opt_verbose :: "bool option"

text \<open>
  A session is code of the driver. The engine only sees the connection it was made for
  (through the send callback's closure) and whether its \<^verbatim>\<open>destroy()\<close> throws.
\<close>

record TCPAdapterSession =
  session_conn :: nat
  destroy_throws :: "thrown option"

datatype message =
  Connecting_msg | Connected_msg | Error_msg string | Unknown_error_msg "string option"
  | Closed_socket_msg

datatype console_line = Console_log message | Console_error message

text \<open>
  The calls the engine makes on its collaborators, in the order it makes them;
  \<open>Session_created c\<close> marks that the factory called for connection \<open>c\<close> has returned
  and the variable \<^verbatim>\<open>session\<close> has been assigned.
\<close>

datatype effect =
  Connect_call
  | Factory_call nat
  | Session_created nat
  | Recv_call nat bytes
  | Destroy_call nat
  | Write_call nat bytes
  | Set_timeout number

text \<open>
  Where the asynchronous method \<^verbatim>\<open>#loop\<close> is suspended: not started, awaiting
  \<^verbatim>\<open>Deno.connect\<close>, awaiting the next chunk of \<^verbatim>\<open>conn.readable\<close>, or finished with the
  timer for the next run pending. The local variables \<^verbatim>\<open>connStart\<close>, \<^verbatim>\<open>conn\<close> and
  \<^verbatim>\<open>session\<close> live in the suspended frame.
\<close>

datatype loop_point =
  Not_running
  | Awaiting_connect real
  | Reading real nat TCPAdapterSession
  | Timer_pending

text \<open>
  The fields of the class, followed by the bookkeeping of the model: the suspended frame,
  the number of connection objects made so far (a connection is identified by its number,
  so every \<^verbatim>\<open>Deno.connect\<close> yields a fresh identity), the writes whose promise is still
  pending, the lines written to the console, the calls made, every value pair the two
  signals \<^verbatim>\<open>status\<close> and \<^verbatim>\<open>details\<close> have shown (one entry per assignment or batch), and the errors that left \<^verbatim>\<open>#loop\<close>
  as a rejected promise.
\<close>

record TCPAdapter =
  host :: string
  port :: nat
  verbose :: bool
  status :: TCPAdapterConnectionStatus
  details :: TCPAdapterConnectionDetails
  stats_conn_duration :: "real list"
  avg_conn_duration :: number
  current_conn :: "nat option"
  loop_at :: loop_point
  conn_count :: nat
  writes_pending :: "nat list"
  console :: "console_line list"
  effects :: "effect list"
  observed :: "(TCPAdapterConnectionStatus \<times> TCPAdapterConnectionDetails) list"
  unhandled :: "thrown list"

section \<open>The operations\<close>

definition emit :: "effect \<Rightarrow> TCPAdapter \<Rightarrow> TCPAdapter" where
  "emit e s = s\<lparr>effects := effects s @ [e]\<rparr>"

definition print :: "console_line \<Rightarrow> TCPAdapter \<Rightarrow> TCPAdapter" where
  "print l s = s\<lparr>console := console s @ [l]\<rparr>"

text \<open>A plain assignment to the status signal.\<close>

definition set_status :: "TCPAdapterConnectionStatus \<Rightarrow> TCPAdapter \<Rightarrow> TCPAdapter" where
  "set_status st s = s\<lparr>status := st, observed := observed s @ [(st, details s)]\<rparr>"

text \<open>A batch assigning both signals: observers see the pair change at once.\<close>

definition batch :: "TCPAdapterConnectionStatus \<Rightarrow> TCPAdapterConnectionDetails \<Rightarrow>
    TCPAdapter \<Rightarrow> TCPAdapter" where
  "batch st d s = s\<lparr>status := st, details := d, observed := observed s @ [(st, d)]\<rparr>"

text \<open>The method \<^verbatim>\<open>#handle_err\<close>, branch by branch.\<close>

definition handle_err :: "thrown \<Rightarrow> TCPAdapter \<Rightarrow> TCPAdapter" where
  "handle_err err s =
     (case err of
        Error name \<Rightarrow>
          (let s1 = (if verbose s then print (Console_error (Error_msg name)) s else s) in
           if name = ''ConnectionRefused'' then batch DISCONNECTED ECONNREFUSED s1
           else if name = ''ConnectionReset'' then batch DISCONNECTED ECONNRESET s1
           else if name = ''Interrupted'' then batch DISCONNECTED INTERRUPTED s1
           else if name = ''TimedOut'' then batch DISCONNECTED ETIMEDOUT s1
           else if name = ''ConnectionAborted'' then batch DISCONNECTED NO_ERROR s1
           else batch DISCONNECTED UNKNOWN_ERROR
                  (print (Console_error (Unknown_error_msg (Some name))) s1))
      | Other_value \<Rightarrow>
          batch DISCONNECTED UNKNOWN_ERROR (print (Console_error (Unknown_error_msg None)) s))"

text \<open>The loop \<^verbatim>\<open>while (length > 6) shift()\<close>.\<close>

function shift_excess :: "real list \<Rightarrow> real list" where
  "shift_excess xs = (if length xs > 6 then shift_excess (tl xs) else xs)"
  by pat_completeness auto
termination
  by (relation "measure length") auto

declare shift_excess.simps [simp del]

text \<open>
  \<^verbatim>\<open>reduce((prev, curr) => prev + curr, 0) / length\<close>; on the empty array this is
  \<^verbatim>\<open>0 / 0\<close>, which is \<^verbatim>\<open>NaN\<close>.
\<close>

definition average :: "real list \<Rightarrow> number" where
  "average xs = (if length xs = 0 then NaN else Num (foldl (+) 0 xs / real (length xs)))"

fun number_sub :: "number \<Rightarrow> number \<Rightarrow> number" where
  "number_sub (Num a) (Num b) = Num (a - b)"
| "number_sub _ _ = NaN"

fun Math_min :: "number \<Rightarrow> number \<Rightarrow> number" where
  "Math_min (Num a) (Num b) = Num (min a b)"
| "Math_min _ _ = NaN"

text \<open>The delay handed to \<^verbatim>\<open>setTimeout\<close>: \<^verbatim>\<open>Math.min(0, 5000 - avg)\<close>.\<close>

definition timeout_delay :: "number \<Rightarrow> number" where
  "timeout_delay avg = Math_min (Num 0) (number_sub (Num 5000) avg)"

definition destroy :: "TCPAdapterSession \<Rightarrow> TCPAdapter \<Rightarrow> TCPAdapter" where
  "destroy ss s =
     (let s1 = emit (Destroy_call (session_conn ss)) s in
      case destroy_throws ss of
        None \<Rightarrow> s1
      | Some e \<Rightarrow> s1\<lparr>unhandled := unhandled s1 @ [e]\<rparr>)"

text \<open>
  The part of \<^verbatim>\<open>#loop\<close> after the \<^verbatim>\<open>try\<close> statement: status, the current connection,
  the statistics, the timer for the next run, and last the cleanup of the session.
\<close>

definition finish_attempt ::
    "real \<Rightarrow> real \<Rightarrow> TCPAdapterSession option \<Rightarrow> TCPAdapter \<Rightarrow> TCPAdapter" where
  "finish_attempt connStart now session s =
     (let s1 = set_status DISCONNECTED s;
          s2 = s1\<lparr>current_conn := None\<rparr>;
          stats = shift_excess (stats_conn_duration s2 @ [now - connStart]);
          s3 = s2\<lparr>stats_conn_duration := stats, avg_conn_duration := average stats\<rparr>;
          s4 = (emit (Set_timeout (timeout_delay (avg_conn_duration s3))) s3)
               \<lparr>loop_at := Timer_pending\<rparr>
      in case session of None \<Rightarrow> s4 | Some ss \<Rightarrow> destroy ss s4)"

text \<open>The part of \<^verbatim>\<open>#loop\<close> up to the first \<^verbatim>\<open>await\<close>.\<close>

definition loop_start :: "real \<Rightarrow> TCPAdapter \<Rightarrow> TCPAdapter" where
  "loop_start now s =
     (let s1 = (if verbose s then print (Console_log Connecting_msg) s else s);
          s2 = set_status CONNECTING s1
      in (emit Connect_call s2)\<lparr>loop_at := Awaiting_connect now\<rparr>)"

definition initial :: "TCPAdapterOptions \<Rightarrow> TCPAdapter" where
  "initial opts =
     \<lparr>host = opt_host opts, port = opt_port opts, verbose = (opt_verbose opts = Some True),
      status = DISCONNECTED, details = NO_ERROR, stats_conn_duration = [],
      avg_conn_duration = NaN, current_conn = None, loop_at = Not_running, conn_count = 0,
      writes_pending = [], console = [], effects = [], observed = [(DISCONNECTED, NO_ERROR)],
      unhandled = []\<rparr>"

text \<open>The constructor, run at time \<open>now\<close>: an empty string is falsy.\<close>

definition new_TCPAdapter :: "TCPAdapterOptions \<Rightarrow> real \<Rightarrow> TCPAdapter" where
  "new_TCPAdapter opts now =
     (if opt_host opts \<noteq> [] \<and> opt_host opts \<noteq> ''!'' then loop_start now (initial opts)
      else initial opts)"

text \<open>
  What happens once \<^verbatim>\<open>Deno.connect\<close> has resolved: a socket option call throws, the
  session factory throws, or the factory returns a session (whose \<^verbatim>\<open>destroy\<close> will
  return or throw).
\<close>

datatype connected_outcome =
  Sockopt_throws thrown | Factory_throws thrown | Factory_returns "thrown option"

datatype recv_outcome = Recv_returns | Recv_throws thrown

text \<open>
  The events of the environment. Each resumes the suspended loop or runs a callback, and
  each runs to the next suspension without interleaving. Those that can end an attempt
  carry the clock reading at that moment. The session is driver code: what its
  \<^verbatim>\<open>recv\<close> does with a chunk comes with the chunk, and its calls of the send
  callback are events of their own (a call made inside the factory or inside \<^verbatim>\<open>recv\<close>
  finds the same current connection as one made right after it). The flag
  \<^verbatim>\<open>verbose\<close> stays as the options give it.
\<close>

datatype event =
  Timer_fires real
  | Connect_resolves real connected_outcome
  | Connect_rejects real thrown
  | Chunk real bytes recv_outcome
  | Stream_ends real
  | Stream_fails real thrown
  | Send nat bytes
  | Write_rejects nat thrown
  | Write_resolves nat

text \<open>
  The send callback of the session made for connection \<open>c\<close>.
\<close>

definition send_callback :: "nat \<Rightarrow> bytes \<Rightarrow> TCPAdapter \<Rightarrow> TCPAdapter" where
  "send_callback c data s =
     (if Some c = current_conn s
      then (emit (Write_call c data) s)\<lparr>writes_pending := writes_pending s @ [c]\<rparr>
      else print (Console_error Closed_socket_msg) s)"

definition connect_resolves :: "real \<Rightarrow> real \<Rightarrow> connected_outcome \<Rightarrow> TCPAdapter \<Rightarrow> TCPAdapter"
  where
  "connect_resolves connStart now outcome s =
     (let conn = conn_count s;
          s1 = s\<lparr>conn_count := Suc conn, current_conn := Some conn\<rparr>
      in case outcome of
           Sockopt_throws err \<Rightarrow> finish_attempt connStart now None (handle_err err s1)
         | Factory_throws err \<Rightarrow>
             (let s2 = (if verbose s1 then print (Console_log Connected_msg) s1 else s1);
                  s3 = batch CONNECTED NO_ERROR s2;
                  s4 = emit (Factory_call conn) s3
              in finish_attempt connStart now None (handle_err err s4))
         | Factory_returns d \<Rightarrow>
             (let s2 = (if verbose s1 then print (Console_log Connected_msg) s1 else s1);
                  s3 = batch CONNECTED NO_ERROR s2;
                  s4 = emit (Factory_call conn) s3
              in (emit (Session_created conn) s4)
                   \<lparr>loop_at := Reading connStart conn
                      \<lparr>session_conn = conn, destroy_throws = d\<rparr>\<rparr>))"

text \<open>
  An event that cannot occur in the present state (no timer pending, no connect awaited,
  no callback handed out for that connection, no write pending on it) leaves the state
  as it is.
\<close>

fun step :: "event \<Rightarrow> TCPAdapter \<Rightarrow> TCPAdapter" where
  "step (Timer_fires now) s =
     (case loop_at s of Timer_pending \<Rightarrow> loop_start now s | _ \<Rightarrow> s)"
| "step (Connect_resolves now outcome) s =
     (case loop_at s of
        Awaiting_connect connStart \<Rightarrow> connect_resolves connStart now outcome s
      | _ \<Rightarrow> s)"
| "step (Connect_rejects now err) s =
     (case loop_at s of
        Awaiting_connect connStart \<Rightarrow> finish_attempt connStart now None (handle_err err s)
      | _ \<Rightarrow> s)"
| "step (Chunk now data r) s =
     (case loop_at s of
        Reading connStart conn session \<Rightarrow>
          (let s1 = emit (Recv_call (session_conn session) data) s in
           case r of
             Recv_returns \<Rightarrow> s1
           | Recv_throws err \<Rightarrow> finish_attempt connStart now (Some session) (handle_err err s1))
      | _ \<Rightarrow> s)"
| "step (Stream_ends now) s =
     (case loop_at s of
        Reading connStart conn session \<Rightarrow> finish_attempt connStart now (Some session) s
      | _ \<Rightarrow> s)"
| "step (Stream_fails now err) s =
     (case loop_at s of
        Reading connStart conn session \<Rightarrow>
          finish_attempt connStart now (Some session) (handle_err err s)
      | _ \<Rightarrow> s)"
| "step (Send c data) s =
     (if Factory_call c \<in> set (effects s) then send_callback c data s else s)"
| "step (Write_rejects c err) s =
     (if c \<in> set (writes_pending s)
      then handle_err err (s\<lparr>writes_pending := remove1 c (writes_pending s)\<rparr>)
      else s)"
| "step (Write_resolves c) s =
     (if c \<in> set (writes_pending s)
      then s\<lparr>writes_pending := remove1 c (writes_pending s)\<rparr>
      else s)"

fun run :: "event list \<Rightarrow> TCPAdapter \<Rightarrow> TCPAdapter" where
  "run [] s = s"
| "run (e # es) s = run es (step e s)"

section \<open>Notions used by the properties\<close>

text \<open>
  Every finished attempt makes exactly one \<^verbatim>\<open>setTimeout\<close> call, so their number counts
  the attempts that have finished.
\<close>

fun is_timeout :: "effect \<Rightarrow> bool" where
  "is_timeout (Set_timeout d) = True"
| "is_timeout _ = False"

definition attempts_finished :: "TCPAdapter \<Rightarrow> nat" where
  "attempts_finished s = length (filter is_timeout (effects s))"

text \<open>The connection whose stream the loop is reading, if it is reading one.\<close>

fun reading_conn :: "loop_point \<Rightarrow> nat option" where
  "reading_conn (Reading t c ss) = Some c"
| "reading_conn _ = None"

text \<open>
  Two successive values of the status signal: an assignment of the value it already has
  is no transition; a change is one of the four transitions of the life cycle.
\<close>

fun transition_allowed ::
    "TCPAdapterConnectionStatus \<Rightarrow> TCPAdapterConnectionStatus \<Rightarrow> bool" where
  "transition_allowed DISCONNECTED CONNECTING = True"
| "transition_allowed CONNECTING CONNECTED = True"
| "transition_allowed CONNECTING DISCONNECTED = True"
| "transition_allowed CONNECTED DISCONNECTED = True"
| "transition_allowed DISCONNECTED CONNECTED = False"
| "transition_allowed CONNECTED CONNECTING = False"
| "transition_allowed DISCONNECTED DISCONNECTED = False"
| "transition_allowed CONNECTING CONNECTING = False"
| "transition_allowed CONNECTED CONNECTED = False"

definition status_step ::
    "TCPAdapterConnectionStatus \<Rightarrow> TCPAdapterConnectionStatus \<Rightarrow> bool" where
  "status_step a b \<longleftrightarrow> a = b \<or> transition_allowed a b"

text \<open>
  An event sequence is timely when every rejection of a write arrives while the
  connection written to is still the current one. A sequence of connect outcomes, with
  no write rejected at all, is timely.
\<close>

fun timely_event :: "event \<Rightarrow> TCPAdapter \<Rightarrow> bool" where
  "timely_event (Write_rejects c err) s = (current_conn s = Some c)"
| "timely_event _ s = True"

fun timely :: "event list \<Rightarrow> TCPAdapter \<Rightarrow> bool" where
  "timely [] s = True"
| "timely (e # es) s = (timely_event e s \<and> timely es (step e s))"

fun is_write_rejection :: "event \<Rightarrow> bool" where
  "is_write_rejection (Write_rejects c err) = True"
| "is_write_rejection _ = False"

text \<open>
  Two successive value pairs of the signals. In the first reading the details change only
  when the status changes to disconnected; in the second they change only when
  disconnected is assigned, or on the change to connected, where they are reset.
\<close>

definition details_step_strict ::
    "TCPAdapterConnectionStatus \<times> TCPAdapterConnectionDetails \<Rightarrow>
     TCPAdapterConnectionStatus \<times> TCPAdapterConnectionDetails \<Rightarrow> bool" where
  "details_step_strict p q \<longleftrightarrow>
     snd p = snd q \<or> (fst p \<noteq> fst q \<and> fst q = DISCONNECTED)"

definition details_step ::
    "TCPAdapterConnectionStatus \<times> TCPAdapterConnectionDetails \<Rightarrow>
     TCPAdapterConnectionStatus \<times> TCPAdapterConnectionDetails \<Rightarrow> bool" where
  "details_step p q \<longleftrightarrow>
     snd p = snd q \<or> fst q = DISCONNECTED
     \<or> (fst p \<noteq> CONNECTED \<and> fst q = CONNECTED \<and> snd q = NO_ERROR)"

text \<open>
  The scenario of a peer that refuses every connection: each round is a rejected connect
  at one time and the firing of the timer at a later one.
\<close>

fun refused_attempts :: "(real \<times> real) list \<Rightarrow> event list" where
  "refused_attempts [] = []"
| "refused_attempts ((t_end, t_next) # rs) =
     Connect_rejects t_end (Error ''ConnectionRefused'') # Timer_fires t_next
       # refused_attempts rs"

section \<open>Invariants of the reachable states\<close>

text \<open>
  The statistics: the history holds the durations of the attempts finished, at most six,
  and the average signal holds the average of the history.
\<close>

definition stats_inv :: "TCPAdapter \<Rightarrow> bool" where
  "stats_inv s \<longleftrightarrow> length (stats_conn_duration s) = min 6 (attempts_finished s)
     \<and> avg_conn_duration s = average (stats_conn_duration s)"

text \<open>
  The sessions: \<^verbatim>\<open>destroy\<close> has been called once for every session whose attempt is
  over and never for another connection; connections are numbered in the order they are
  made; the loop reads the stream of a connection that has a session.
\<close>

definition session_inv :: "TCPAdapter \<Rightarrow> bool" where
  "session_inv s \<longleftrightarrow>
     (\<forall>c. count_list (effects s) (Destroy_call c) =
        (if Session_created c \<in> set (effects s) \<and> reading_conn (loop_at s) \<noteq> Some c
         then 1 else 0))
     \<and> (\<forall>c. Session_created c \<in> set (effects s) \<longrightarrow> c < conn_count s)
     \<and> (\<forall>t c ss. loop_at s = Reading t c ss \<longrightarrow>
           session_conn ss = c \<and> Session_created c \<in> set (effects s))"

text \<open>
  The status signal, for timely event sequences: its successive values follow the life
  cycle, and its value fits the point where the loop is suspended.
\<close>

definition status_inv :: "TCPAdapter \<Rightarrow> bool" where
  "status_inv s \<longleftrightarrow>
     observed s \<noteq> [] \<and> hd (observed s) = (DISCONNECTED, NO_ERROR)
     \<and> last (observed s) = (status s, details s)
     \<and> successively status_step (map fst (observed s))
     \<and> (case loop_at s of
           Awaiting_connect t \<Rightarrow> status s = CONNECTING \<and> current_conn s = None
         | Reading t c ss \<Rightarrow> status s \<noteq> CONNECTING \<and> current_conn s = Some c
         | _ \<Rightarrow> status s = DISCONNECTED \<and> current_conn s = None)"

text \<open>The details signal, for all event sequences.\<close>

definition details_inv :: "TCPAdapter \<Rightarrow> bool" where
  "details_inv s \<longleftrightarrow>
     observed s \<noteq> [] \<and> last (observed s) = (status s, details s)
     \<and> successively details_step (observed s)
     \<and> (\<forall>t. loop_at s = Awaiting_connect t \<longrightarrow> status s \<noteq> CONNECTED)"

text \<open>Options of a client with the loop enabled and logging off.\<close>

definition quiet_options :: TCPAdapterOptions where
  "quiet_options = \<lparr>opt_host = ''127.0.0.1'', opt_port = 1234, opt_verbose = None\<rparr>"

section \<open>The operations, field by field\<close>

lemma handle_err_details:
  "details (handle_err err s) =
     (case err of
        Error name \<Rightarrow>
          (if name = ''ConnectionRefused'' then ECONNREFUSED
           else if name = ''ConnectionReset'' then ECONNRESET
           else if name = ''Interrupted'' then INTERRUPTED
           else if name = ''TimedOut'' then ETIMEDOUT
           else if name = ''ConnectionAborted'' then NO_ERROR
           else UNKNOWN_ERROR)
      | Other_value \<Rightarrow> UNKNOWN_ERROR)"
  by (simp add: handle_err_def batch_def print_def Let_def split: thrown.split)

lemma handle_err_fields [simp]:
  "host (handle_err err s) = host s"
  "port (handle_err err s) = port s"
  "verbose (handle_err err s) = verbose s"
  "status (handle_err err s) = DISCONNECTED"
  "stats_conn_duration (handle_err err s) = stats_conn_duration s"
  "avg_conn_duration (handle_err err s) = avg_conn_duration s"
  "current_conn (handle_err err s) = current_conn s"
  "loop_at (handle_err err s) = loop_at s"
  "conn_count (handle_err err s) = conn_count s"
  "writes_pending (handle_err err s) = writes_pending s"
  "effects (handle_err err s) = effects s"
  "unhandled (handle_err err s) = unhandled s"
  "observed (handle_err err s) = observed s @ [(DISCONNECTED, details (handle_err err s))]"
  by (simp_all add: handle_err_def batch_def print_def Let_def split: thrown.split)

lemma finish_attempt_fields [simp]:
  "host (finish_attempt t now ss s) = host s"
  "port (finish_attempt t now ss s) = port s"
  "verbose (finish_attempt t now ss s) = verbose s"
  "status (finish_attempt t now ss s) = DISCONNECTED"
  "details (finish_attempt t now ss s) = details s"
  "stats_conn_duration (finish_attempt t now ss s) =
     shift_excess (stats_conn_duration s @ [now - t])"
  "avg_conn_duration (finish_attempt t now ss s) =
     average (shift_excess (stats_conn_duration s @ [now - t]))"
  "current_conn (finish_attempt t now ss s) = None"
  "loop_at (finish_attempt t now ss s) = Timer_pending"
  "conn_count (finish_attempt t now ss s) = conn_count s"
  "writes_pending (finish_attempt t now ss s) = writes_pending s"
  "console (finish_attempt t now ss s) = console s"
  "observed (finish_attempt t now ss s) = observed s @ [(DISCONNECTED, details s)]"
  "effects (finish_attempt t now ss s) =
     effects s @ Set_timeout (timeout_delay
         (average (shift_excess (stats_conn_duration s @ [now - t]))))
       # (case ss of None \<Rightarrow> [] | Some x \<Rightarrow> [Destroy_call (session_conn x)])"
  "unhandled (finish_attempt t now ss s) =
     unhandled s @ (case ss of None \<Rightarrow> [] | Some x \<Rightarrow>
        (case destroy_throws x of None \<Rightarrow> [] | Some e \<Rightarrow> [e]))"
  by (simp_all add: finish_attempt_def set_status_def emit_def destroy_def Let_def
      split: option.split)

lemma loop_start_fields [simp]:
  "host (loop_start now s) = host s"
  "port (loop_start now s) = port s"
  "verbose (loop_start now s) = verbose s"
  "status (loop_start now s) = CONNECTING"
  "details (loop_start now s) = details s"
  "stats_conn_duration (loop_start now s) = stats_conn_duration s"
  "avg_conn_duration (loop_start now s) = avg_conn_duration s"
  "current_conn (loop_start now s) = current_conn s"
  "loop_at (loop_start now s) = Awaiting_connect now"
  "conn_count (loop_start now s) = conn_count s"
  "writes_pending (loop_start now s) = writes_pending s"
  "observed (loop_start now s) = observed s @ [(CONNECTING, details s)]"
  "effects (loop_start now s) = effects s @ [Connect_call]"
  "unhandled (loop_start now s) = unhandled s"
  by (simp_all add: loop_start_def set_status_def emit_def print_def Let_def)

lemma send_callback_fields [simp]:
  "host (send_callback c d s) = host s"
  "port (send_callback c d s) = port s"
  "verbose (send_callback c d s) = verbose s"
  "status (send_callback c d s) = status s"
  "details (send_callback c d s) = details s"
  "stats_conn_duration (send_callback c d s) = stats_conn_duration s"
  "avg_conn_duration (send_callback c d s) = avg_conn_duration s"
  "current_conn (send_callback c d s) = current_conn s"
  "loop_at (send_callback c d s) = loop_at s"
  "conn_count (send_callback c d s) = conn_count s"
  "observed (send_callback c d s) = observed s"
  "unhandled (send_callback c d s) = unhandled s"
  "writes_pending (send_callback c d s) =
     (if Some c = current_conn s then writes_pending s @ [c] else writes_pending s)"
  "effects (send_callback c d s) =
     (if Some c = current_conn s then effects s @ [Write_call c d] else effects s)"
  "console (send_callback c d s) =
     (if Some c = current_conn s then console s
      else console s @ [Console_error Closed_socket_msg])"
  by (simp_all add: send_callback_def emit_def print_def)

lemma connect_resolves_fields [simp]:
  "host (connect_resolves t now out s) = host s"
  "port (connect_resolves t now out s) = port s"
  "verbose (connect_resolves t now out s) = verbose s"
  "conn_count (connect_resolves t now out s) = Suc (conn_count s)"
  "writes_pending (connect_resolves t now out s) = writes_pending s"
  "unhandled (connect_resolves t now out s) = unhandled s"
  by (simp_all add: connect_resolves_def Let_def batch_def emit_def print_def
      split: connected_outcome.split)

lemma connect_resolves_session [simp]:
  "status (connect_resolves t now (Factory_returns d) s) = CONNECTED"
  "details (connect_resolves t now (Factory_returns d) s) = NO_ERROR"
  "current_conn (connect_resolves t now (Factory_returns d) s) = Some (conn_count s)"
  "loop_at (connect_resolves t now (Factory_returns d) s) =
     Reading t (conn_count s) \<lparr>session_conn = conn_count s, destroy_throws = d\<rparr>"
  "stats_conn_duration (connect_resolves t now (Factory_returns d) s) = stats_conn_duration s"
  "avg_conn_duration (connect_resolves t now (Factory_returns d) s) = avg_conn_duration s"
  "observed (connect_resolves t now (Factory_returns d) s) =
     observed s @ [(CONNECTED, NO_ERROR)]"
  "effects (connect_resolves t now (Factory_returns d) s) =
     effects s @ [Factory_call (conn_count s), Session_created (conn_count s)]"
  by (simp_all add: connect_resolves_def Let_def batch_def emit_def print_def)

lemma connect_resolves_factory_throws [simp]:
  "status (connect_resolves t now (Factory_throws err) s) = DISCONNECTED"
  "details (connect_resolves t now (Factory_throws err) s) = details (handle_err err s)"
  "current_conn (connect_resolves t now (Factory_throws err) s) = None"
  "loop_at (connect_resolves t now (Factory_throws err) s) = Timer_pending"
  "stats_conn_duration (connect_resolves t now (Factory_throws err) s) =
     shift_excess (stats_conn_duration s @ [now - t])"
  "avg_conn_duration (connect_resolves t now (Factory_throws err) s) =
     average (shift_excess (stats_conn_duration s @ [now - t]))"
  "observed (connect_resolves t now (Factory_throws err) s) =
     observed s @ [(CONNECTED, NO_ERROR), (DISCONNECTED, details (handle_err err s)),
       (DISCONNECTED, details (handle_err err s))]"
  "effects (connect_resolves t now (Factory_throws err) s) =
     effects s @ [Factory_call (conn_count s),
       Set_timeout (timeout_delay (average (shift_excess (stats_conn_duration s @ [now - t]))))]"
  by (simp_all add: connect_resolves_def Let_def batch_def emit_def print_def
      handle_err_details)

lemma connect_resolves_sockopt_throws [simp]:
  "status (connect_resolves t now (Sockopt_throws err) s) = DISCONNECTED"
  "details (connect_resolves t now (Sockopt_throws err) s) = details (handle_err err s)"
  "current_conn (connect_resolves t now (Sockopt_throws err) s) = None"
  "loop_at (connect_resolves t now (Sockopt_throws err) s) = Timer_pending"
  "stats_conn_duration (connect_resolves t now (Sockopt_throws err) s) =
     shift_excess (stats_conn_duration s @ [now - t])"
  "avg_conn_duration (connect_resolves t now (Sockopt_throws err) s) =
     average (shift_excess (stats_conn_duration s @ [now - t]))"
  "observed (connect_resolves t now (Sockopt_throws err) s) =
     observed s @ [(DISCONNECTED, details (handle_err err s)),
       (DISCONNECTED, details (handle_err err s))]"
  "effects (connect_resolves t now (Sockopt_throws err) s) =
     effects s @ [Set_timeout (timeout_delay
        (average (shift_excess (stats_conn_duration s @ [now - t]))))]"
  by (simp_all add: connect_resolves_def Let_def handle_err_details)

lemma emit_fields [simp]:
  "host (emit x s) = host s"
  "port (emit x s) = port s"
  "verbose (emit x s) = verbose s"
  "status (emit x s) = status s"
  "details (emit x s) = details s"
  "stats_conn_duration (emit x s) = stats_conn_duration s"
  "avg_conn_duration (emit x s) = avg_conn_duration s"
  "current_conn (emit x s) = current_conn s"
  "loop_at (emit x s) = loop_at s"
  "conn_count (emit x s) = conn_count s"
  "writes_pending (emit x s) = writes_pending s"
  "console (emit x s) = console s"
  "observed (emit x s) = observed s"
  "unhandled (emit x s) = unhandled s"
  "effects (emit x s) = effects s @ [x]"
  by (simp_all add: emit_def)

lemma print_fields [simp]:
  "host (print x s) = host s"
  "port (print x s) = port s"
  "verbose (print x s) = verbose s"
  "status (print x s) = status s"
  "details (print x s) = details s"
  "stats_conn_duration (print x s) = stats_conn_duration s"
  "avg_conn_duration (print x s) = avg_conn_duration s"
  "current_conn (print x s) = current_conn s"
  "loop_at (print x s) = loop_at s"
  "conn_count (print x s) = conn_count s"
  "writes_pending (print x s) = writes_pending s"
  "effects (print x s) = effects s"
  "observed (print x s) = observed s"
  "unhandled (print x s) = unhandled s"
  "console (print x s) = console s @ [x]"
  by (simp_all add: print_def)

lemma console_fields [simp]:
  "console (loop_start now s) =
     (if verbose s then console s @ [Console_log Connecting_msg] else console s)"
  "console (connect_resolves t now (Factory_returns d) s) =
     (if verbose s then console s @ [Console_log Connected_msg] else console s)"
  by (simp_all add: loop_start_def connect_resolves_def set_status_def batch_def emit_def
      print_def Let_def)

section \<open>The statistics\<close>

lemma shift_excess_drop: "shift_excess xs = drop (length xs - 6) xs"
proof (induction xs rule: shift_excess.induct)
  case (1 xs)
  show ?case
  proof (cases "length xs > 6")
    case True
    then have "shift_excess xs = shift_excess (tl xs)" by (simp add: shift_excess.simps)
    also have "\<dots> = drop (length (tl xs) - 6) (tl xs)" using 1 True by simp
    also have "\<dots> = drop (length xs - 6) xs"
    proof (cases xs)
      case Nil
      with True show ?thesis by simp
    next
      case (Cons a list)
      with True have "length xs - 6 = Suc (length list - 6)" by simp
      with Cons show ?thesis by simp
    qed
    finally show ?thesis .
  next
    case False
    then show ?thesis by (simp add: shift_excess.simps)
  qed
qed

lemma foldl_plus_sum_list: "foldl (+) a xs = a + sum_list (xs :: real list)"
  by (induction xs arbitrary: a) simp_all

lemma average_mean:
  "average xs = (if xs = [] then NaN else Num (sum_list xs / real (length xs)))"
  by (simp add: average_def foldl_plus_sum_list)

lemma timeout_delay_never_positive:
  "timeout_delay avg = NaN \<or> (\<exists>d. timeout_delay avg = Num d \<and> d \<le> 0)"
  by (cases avg) (simp_all add: timeout_delay_def)

lemma construct_quiet_fields [simp]:
  "loop_at (new_TCPAdapter quiet_options t0) = Awaiting_connect t0"
  "status (new_TCPAdapter quiet_options t0) = CONNECTING"
  "details (new_TCPAdapter quiet_options t0) = NO_ERROR"
  "stats_conn_duration (new_TCPAdapter quiet_options t0) = []"
  "avg_conn_duration (new_TCPAdapter quiet_options t0) = NaN"
  "current_conn (new_TCPAdapter quiet_options t0) = None"
  "conn_count (new_TCPAdapter quiet_options t0) = 0"
  "writes_pending (new_TCPAdapter quiet_options t0) = []"
  "effects (new_TCPAdapter quiet_options t0) = [Connect_call]"
  "console (new_TCPAdapter quiet_options t0) = []"
  "verbose (new_TCPAdapter quiet_options t0) = False"
  "observed (new_TCPAdapter quiet_options t0) = [(DISCONNECTED, NO_ERROR), (CONNECTING, NO_ERROR)]"
  "unhandled (new_TCPAdapter quiet_options t0) = []"
  by (simp_all add: new_TCPAdapter_def quiet_options_def initial_def)

lemma run_append: "run (xs @ ys) s = run ys (run xs s)"
  by (induction xs arbitrary: s) simp_all


lemma attempts_finished_simps [simp]:
  "attempts_finished (handle_err err s) = attempts_finished s"
  "attempts_finished (loop_start now s) = attempts_finished s"
  "attempts_finished (send_callback c d s) = attempts_finished s"
  "attempts_finished (emit (Recv_call c d) s) = attempts_finished s"
  "attempts_finished (finish_attempt t now ss s) = Suc (attempts_finished s)"
  "attempts_finished (connect_resolves t now out s) =
     (case out of Factory_returns d \<Rightarrow> attempts_finished s | _ \<Rightarrow> Suc (attempts_finished s))"
  "attempts_finished (s\<lparr>writes_pending := w\<rparr>) = attempts_finished s"
  by (simp_all add: attempts_finished_def split: connected_outcome.split option.split)

lemma stats_inv_finish:
  "stats_inv s \<Longrightarrow> stats_inv (finish_attempt t now ss s)"
  by (simp add: stats_inv_def shift_excess_drop)

lemma stats_inv_handle_err: "stats_inv (handle_err err s) = stats_inv s"
  by (simp add: stats_inv_def)

lemma stats_inv_connect:
  "stats_inv s \<Longrightarrow> stats_inv (connect_resolves t now out s)"
  by (cases out) (simp_all add: stats_inv_def shift_excess_drop)

lemma stats_inv_step: "stats_inv s \<Longrightarrow> stats_inv (step e s)"
proof (cases e)
  case (Chunk now d r)
  assume "stats_inv s"
  then have "stats_inv (emit (Recv_call c d) s)" for c by (simp add: stats_inv_def)
  then show ?thesis using Chunk \<open>stats_inv s\<close>
    by (simp add: stats_inv_finish stats_inv_handle_err Let_def
        split: loop_point.split recv_outcome.split)
qed (simp_all add: stats_inv_finish stats_inv_handle_err stats_inv_connect stats_inv_def [of "loop_start _ _"]
      stats_inv_def [of "send_callback _ _ _"] stats_inv_def [of "_\<lparr>writes_pending := _\<rparr>"]
      stats_inv_def [of s, symmetric] split: loop_point.split)

lemma stats_inv_run: "stats_inv s \<Longrightarrow> stats_inv (run es s)"
  by (induction es arbitrary: s) (simp_all add: stats_inv_step)

lemma stats_inv_construct: "stats_inv (new_TCPAdapter opts now)"
  by (simp add: new_TCPAdapter_def stats_inv_def attempts_finished_def initial_def average_def)

section \<open>The sessions\<close>

lemma session_inv_step: "session_inv s \<Longrightarrow> session_inv (step e s)"
proof (cases e)
  case (Connect_resolves now out)
  assume inv: "session_inv s"
  show ?thesis
  proof (cases "loop_at s")
    case (Awaiting_connect t)
    from inv have fresh: "Session_created (conn_count s) \<notin> set (effects s)"
      unfolding session_inv_def by (meson less_irrefl)
    show ?thesis using inv Awaiting_connect Connect_resolves fresh
      unfolding session_inv_def
      by (cases out) (auto simp: less_Suc_eq)
  qed (use inv Connect_resolves in simp_all)
next
  case (Chunk now d r)
  assume inv: "session_inv s"
  show ?thesis using inv Chunk unfolding session_inv_def
    by (cases "loop_at s"; cases r) (auto simp: Let_def)
next
  case (Stream_ends now)
  assume inv: "session_inv s"
  show ?thesis using inv Stream_ends unfolding session_inv_def
    by (cases "loop_at s") auto
next
  case (Stream_fails now err)
  assume inv: "session_inv s"
  show ?thesis using inv Stream_fails unfolding session_inv_def
    by (cases "loop_at s") auto
next
  case (Timer_fires now)
  assume inv: "session_inv s"
  show ?thesis using inv Timer_fires unfolding session_inv_def
    by (cases "loop_at s") auto
next
  case (Connect_rejects now err)
  assume inv: "session_inv s"
  show ?thesis using inv Connect_rejects unfolding session_inv_def
    by (cases "loop_at s") auto
next
  case (Send c d)
  assume inv: "session_inv s"
  show ?thesis using inv Send unfolding session_inv_def by auto
next
  case (Write_rejects c err)
  assume inv: "session_inv s"
  show ?thesis using inv Write_rejects unfolding session_inv_def by auto
next
  case (Write_resolves c)
  assume inv: "session_inv s"
  show ?thesis using inv Write_resolves unfolding session_inv_def by auto
qed

lemma session_inv_run: "session_inv s \<Longrightarrow> session_inv (run es s)"
  by (induction es arbitrary: s) (simp_all add: session_inv_step)

lemma session_inv_construct: "session_inv (new_TCPAdapter opts now)"
  by (simp add: new_TCPAdapter_def session_inv_def initial_def)


section \<open>The signals\<close>

lemma successively_snoc:
  "successively P (xs @ [y]) \<longleftrightarrow> successively P xs \<and> (xs = [] \<or> P (last xs) y)"
  by (simp add: successively_append_iff)

lemma status_inv_step:
  assumes inv: "status_inv s" and t: "timely_event e s"
  shows "status_inv (step e s)"
proof (cases e)
  case (Timer_fires now)
  show ?thesis using inv Timer_fires
    by (cases "loop_at s")
       (auto simp: status_inv_def successively_snoc last_map status_step_def)
next
  case (Connect_resolves now out)
  show ?thesis
  proof (cases "loop_at s")
    case (Awaiting_connect tt)
    with inv have st: "status s = CONNECTING" "fst (last (observed s)) = CONNECTING"
      "observed s \<noteq> []" "hd (observed s) = (DISCONNECTED, NO_ERROR)"
      "successively status_step (map fst (observed s))"
      by (auto simp: status_inv_def)
    show ?thesis using st Awaiting_connect Connect_resolves
      by (cases out)
         (simp_all add: status_inv_def successively_append_iff last_map status_step_def)
  qed (use inv Connect_resolves in simp_all)
next
  case (Connect_rejects now err)
  show ?thesis
  proof (cases "loop_at s")
    case (Awaiting_connect tt)
    with inv have st: "status s = CONNECTING" "fst (last (observed s)) = CONNECTING"
      "observed s \<noteq> []" "hd (observed s) = (DISCONNECTED, NO_ERROR)"
      "successively status_step (map fst (observed s))"
      by (auto simp: status_inv_def)
    show ?thesis using st Awaiting_connect Connect_rejects
      by (simp add: status_inv_def successively_append_iff last_map status_step_def)
  qed (use inv Connect_rejects in simp_all)
next
  case (Chunk now d r)
  show ?thesis
  proof (cases "loop_at s")
    case (Reading tt c ss)
    with inv have st: "status s \<noteq> CONNECTING" "fst (last (observed s)) = status s"
      "observed s \<noteq> []" "hd (observed s) = (DISCONNECTED, NO_ERROR)"
      "successively status_step (map fst (observed s))" "current_conn s = Some c"
      "last (observed s) = (status s, details s)"
      by (auto simp: status_inv_def)
    show ?thesis using st Reading Chunk
      by (cases r; cases "status s")
         (simp_all add: status_inv_def successively_append_iff last_map status_step_def)
  qed (use inv Chunk in simp_all)
next
  case (Stream_ends now)
  show ?thesis
  proof (cases "loop_at s")
    case (Reading tt c ss)
    with inv have st: "status s \<noteq> CONNECTING" "fst (last (observed s)) = status s"
      "observed s \<noteq> []" "hd (observed s) = (DISCONNECTED, NO_ERROR)"
      "successively status_step (map fst (observed s))"
      by (auto simp: status_inv_def)
    show ?thesis using st Reading Stream_ends
      by (cases "status s")
         (simp_all add: status_inv_def successively_append_iff last_map status_step_def)
  qed (use inv Stream_ends in simp_all)
next
  case (Stream_fails now err)
  show ?thesis
  proof (cases "loop_at s")
    case (Reading tt c ss)
    with inv have st: "status s \<noteq> CONNECTING" "fst (last (observed s)) = status s"
      "observed s \<noteq> []" "hd (observed s) = (DISCONNECTED, NO_ERROR)"
      "successively status_step (map fst (observed s))"
      by (auto simp: status_inv_def)
    show ?thesis using st Reading Stream_fails
      by (cases "status s")
         (simp_all add: status_inv_def successively_append_iff last_map status_step_def)
  qed (use inv Stream_fails in simp_all)
next
  case (Send c d)
  show ?thesis using inv Send
    by (cases "loop_at s") (simp_all add: status_inv_def)
next
  case (Write_rejects c err)
  show ?thesis
  proof (cases "c \<in> set (writes_pending s)")
    case True
    from Write_rejects t have cur: "current_conn s = Some c" by simp
    with inv obtain tt ss where rd: "loop_at s = Reading tt c ss"
      by (cases "loop_at s") (auto simp: status_inv_def)
    with inv have st: "status s \<noteq> CONNECTING" "fst (last (observed s)) = status s"
      "observed s \<noteq> []" "hd (observed s) = (DISCONNECTED, NO_ERROR)"
      "successively status_step (map fst (observed s))"
      by (auto simp: status_inv_def)
    show ?thesis using st rd cur Write_rejects True
      by (cases "status s")
         (simp_all add: status_inv_def successively_append_iff last_map status_step_def)
  next
    case False
    with inv Write_rejects show ?thesis by simp
  qed
next
  case (Write_resolves c)
  show ?thesis using inv Write_resolves
    by (cases "loop_at s") (simp_all add: status_inv_def)
qed

lemma status_inv_run: "status_inv s \<Longrightarrow> timely es s \<Longrightarrow> status_inv (run es s)"
  by (induction es arbitrary: s) (simp_all add: status_inv_step)

lemma status_inv_construct: "status_inv (new_TCPAdapter opts now)"
  by (simp add: new_TCPAdapter_def status_inv_def initial_def status_step_def)

lemma no_rejection_timely: "\<forall>e \<in> set es. \<not> is_write_rejection e \<Longrightarrow> timely es s"
proof (induction es arbitrary: s)
  case Nil
  show ?case by simp
next
  case (Cons e es)
  from Cons.prems have "\<not> is_write_rejection e" by simp
  then have "timely_event e s'" for s' by (cases e) simp_all
  moreover from Cons.prems have "timely es s'" for s' by (intro Cons.IH) simp
  ultimately show ?case by simp
qed


lemma details_inv_step:
  assumes inv: "details_inv s"
  shows "details_inv (step e s)"
proof -
  from inv have st: "observed s \<noteq> []" "last (observed s) = (status s, details s)"
    "successively details_step (observed s)"
    by (auto simp: details_inv_def)
  show ?thesis
  proof (cases e)
    case (Timer_fires now)
    show ?thesis using inv st Timer_fires
      by (cases "loop_at s")
         (simp_all add: details_inv_def successively_append_iff details_step_def)
  next
    case (Connect_resolves now out)
    show ?thesis
    proof (cases "loop_at s")
      case (Awaiting_connect tt)
      with inv have "status s \<noteq> CONNECTED" by (simp add: details_inv_def)
      then show ?thesis using st Awaiting_connect Connect_resolves
        by (cases out)
           (simp_all add: details_inv_def successively_append_iff details_step_def)
    qed (use inv Connect_resolves in simp_all)
  next
    case (Connect_rejects now err)
    show ?thesis using inv st Connect_rejects
      by (cases "loop_at s")
         (simp_all add: details_inv_def successively_append_iff details_step_def)
  next
    case (Chunk now d r)
    show ?thesis using inv st Chunk
      by (cases "loop_at s"; cases r)
         (simp_all add: details_inv_def successively_append_iff details_step_def)
  next
    case (Stream_ends now)
    show ?thesis using inv st Stream_ends
      by (cases "loop_at s")
         (simp_all add: details_inv_def successively_append_iff details_step_def)
  next
    case (Stream_fails now err)
    show ?thesis using inv st Stream_fails
      by (cases "loop_at s")
         (simp_all add: details_inv_def successively_append_iff details_step_def)
  next
    case (Send c d)
    show ?thesis using inv Send by (simp add: details_inv_def)
  next
    case (Write_rejects c err)
    show ?thesis using inv st Write_rejects
      by (simp add: details_inv_def successively_append_iff details_step_def)
  next
    case (Write_resolves c)
    show ?thesis using inv Write_resolves by (simp add: details_inv_def)
  qed
qed

lemma details_inv_run: "details_inv s \<Longrightarrow> details_inv (run es s)"
  by (induction es arbitrary: s) (simp_all add: details_inv_step)

lemma details_inv_construct: "details_inv (new_TCPAdapter opts now)"
  by (simp add: new_TCPAdapter_def details_inv_def initial_def details_step_def)

section \<open>The disabled engine\<close>

lemma step_initial: "step e (initial opts) = initial opts"
  by (cases e) (simp_all add: initial_def)

lemma run_initial: "run es (initial opts) = initial opts"
  by (induction es) (simp_all add: step_initial)


section \<open>A peer that refuses every connection\<close>

lemma refused_attempts_run:
  assumes "loop_at s = Awaiting_connect t"
  shows "(\<exists>t'. loop_at (run (refused_attempts rs) s) = Awaiting_connect t')
       \<and> unhandled (run (refused_attempts rs) s) = unhandled s
       \<and> count_list (effects (run (refused_attempts rs) s)) Connect_call
           = count_list (effects s) Connect_call + length rs
       \<and> attempts_finished (run (refused_attempts rs) s) = attempts_finished s + length rs"
  using assms
proof (induction rs arbitrary: s t)
  case Nil
  then show ?case by simp
next
  case (Cons r rs)
  obtain t_end t_next where r: "r = (t_end, t_next)" by (cases r)
  define s' where "s' = step (Timer_fires t_next)
     (step (Connect_rejects t_end (Error ''ConnectionRefused'')) s)"
  from Cons.prems have at: "loop_at s' = Awaiting_connect t_next"
    and un: "unhandled s' = unhandled s"
    and cc: "count_list (effects s') Connect_call = Suc (count_list (effects s) Connect_call)"
    and fin: "attempts_finished s' = Suc (attempts_finished s)"
    by (simp_all add: s'_def)
  from Cons.IH [OF at] un cc fin show ?case
    by (simp add: r s'_def)
qed

section \<open>The delay before the next attempt\<close>

text \<open>
  C1. The claim: the delay before the next attempt is the larger of zero and 5000 minus
  the average duration, so 4900 ms after one attempt of 100 ms. The code takes the
  smaller of the two: after a connection that is reset 100 ms after the attempt began,
  with history \<open>[100]\<close> and average \<open>100\<close>, the delay handed to the timer is \<open>0\<close>.
\<close>

theorem reset_after_100ms_schedules_no_delay:
  "let s = run [Connect_resolves 0 (Factory_returns None),
                Stream_fails 100 (Error ''ConnectionReset'')] (new_TCPAdapter quiet_options 0)
   in details s = ECONNRESET \<and> stats_conn_duration s = [100]
      \<and> avg_conn_duration s = Num 100
      \<and> effects s = [Connect_call, Factory_call 0, Session_created 0,
           Set_timeout (Num 0), Destroy_call 0]"
  by (simp add: Let_def handle_err_details shift_excess_drop average_def timeout_delay_def)

section \<open>The write guard\<close>

text \<open>
  C2. When the current connection is not the one a session was made for, a call of that
  session's send callback writes to no transport: it makes no call at all, leaves no
  write pending, and prints the warning.
\<close>

theorem stale_send_is_dropped:
  assumes "Factory_call c \<in> set (effects s)" and "current_conn s \<noteq> Some c"
  shows "step (Send c data) s = print (Console_error Closed_socket_msg) s
       \<and> effects (step (Send c data) s) = effects s
       \<and> writes_pending (step (Send c data) s) = writes_pending s
       \<and> console (step (Send c data) s) = console s @ [Console_error Closed_socket_msg]"
  using assms by (simp add: send_callback_def)

theorem stale_send_is_dropped_witness:
  "let s = run [Connect_resolves 1 (Factory_returns None), Stream_ends 2, Timer_fires 3,
                Connect_resolves 4 (Factory_returns None)] (new_TCPAdapter quiet_options 0)
   in Factory_call 0 \<in> set (effects s) \<and> current_conn s = Some 1
      \<and> current_conn s \<noteq> Some 0
      \<and> effects (step (Send 0 [1, 2]) s) = effects s
      \<and> console (step (Send 0 [1, 2]) s) = [Console_error Closed_socket_msg]"
proof -
  define s where "s = run [Connect_resolves 1 (Factory_returns None), Stream_ends 2,
    Timer_fires 3, Connect_resolves 4 (Factory_returns None)] (new_TCPAdapter quiet_options 0)"
  have h1: "Factory_call 0 \<in> set (effects s)" by (simp add: s_def)
  have h2: "current_conn s = Some 1" by (simp add: s_def)
  then have h3: "current_conn s \<noteq> Some 0" by simp
  have h4: "console s = []" by (simp add: s_def)
  from stale_send_is_dropped [OF h1 h3, of "[1, 2]"] h1 h2 h4
  show ?thesis unfolding s_def [symmetric] by (simp add: Let_def)
qed

section \<open>The status signal\<close>

text \<open>
  The status signal starts at disconnected, and in every timely event sequence (so in
  every sequence without a rejected write) each change of its value is one of
  disconnected to connecting, connecting to connected, connecting to disconnected and
  connected to disconnected.
\<close>

lemma timely_status_follows_life_cycle:
  assumes "timely es (new_TCPAdapter opts t0)"
  shows "observed (run es (new_TCPAdapter opts t0)) \<noteq> []
       \<and> fst (hd (observed (run es (new_TCPAdapter opts t0)))) = DISCONNECTED
       \<and> fst (last (observed (run es (new_TCPAdapter opts t0)))) = status (run es (new_TCPAdapter opts t0))
       \<and> successively status_step (map fst (observed (run es (new_TCPAdapter opts t0))))"
proof -
  have "status_inv (run es (new_TCPAdapter opts t0))"
    using assms by (intro status_inv_run status_inv_construct)
  then show ?thesis by (simp add: status_inv_def)
qed

lemma timely_status_example:
  "timely [Connect_resolves 1 (Factory_returns None), Send 0 [7],
       Write_rejects 0 (Error ''BrokenPipe''), Stream_ends 5, Timer_fires 6,
       Connect_rejects 7 (Error ''ConnectionRefused'')] (new_TCPAdapter quiet_options 0)
   \<and> map fst (observed (run [Connect_resolves 1 (Factory_returns None), Send 0 [7],
       Write_rejects 0 (Error ''BrokenPipe''), Stream_ends 5, Timer_fires 6,
       Connect_rejects 7 (Error ''ConnectionRefused'')] (new_TCPAdapter quiet_options 0)))
     = [DISCONNECTED, CONNECTING, CONNECTED, DISCONNECTED, DISCONNECTED, CONNECTING,
        DISCONNECTED, DISCONNECTED]
   \<and> successively status_step [DISCONNECTED, CONNECTING, CONNECTED, DISCONNECTED,
        DISCONNECTED, CONNECTING, DISCONNECTED, DISCONNECTED]"
proof -
  define es where "es = [Connect_resolves 1 (Factory_returns None), Send 0 [7],
       Write_rejects 0 (Error ''BrokenPipe''), Stream_ends 5, Timer_fires 6,
       Connect_rejects 7 (Error ''ConnectionRefused'')]"
  have t: "timely es (new_TCPAdapter quiet_options 0)" by (simp add: es_def)
  have m: "map fst (observed (run es (new_TCPAdapter quiet_options 0)))
     = [DISCONNECTED, CONNECTING, CONNECTED, DISCONNECTED, DISCONNECTED, CONNECTING,
        DISCONNECTED, DISCONNECTED]"
    by (simp add: es_def)
  from timely_status_follows_life_cycle [OF t] t m show ?thesis
    unfolding es_def by simp
qed

text \<open>
  C3. The status signal is to change only from disconnected to connecting, from
  connecting to connected or disconnected, and from connected to disconnected. The send
  callback checks that its connection is still the current one before it writes; the
  handler of a rejected write makes no such check. So when a write was made on a
  connection that has been reset since, and its rejection arrives while the next connect
  is awaited, the handler sets the status to disconnected, and the connect that succeeds
  next takes it from disconnected to connected: connecting is skipped.
\<close>

theorem late_write_rejection_skips_connecting:
  "map fst (observed (run [Connect_resolves 1 (Factory_returns None), Send 0 [1],
       Stream_fails 2 (Error ''ConnectionReset''), Timer_fires 3,
       Write_rejects 0 (Error ''ConnectionReset''),
       Connect_resolves 4 (Factory_returns None)] (new_TCPAdapter quiet_options 0)))
     = [DISCONNECTED, CONNECTING, CONNECTED, DISCONNECTED, DISCONNECTED, CONNECTING,
        DISCONNECTED, CONNECTED]
   \<and> \<not> status_step DISCONNECTED CONNECTED
   \<and> \<not> successively status_step
        (map fst (observed (run [Connect_resolves 1 (Factory_returns None), Send 0 [1],
           Stream_fails 2 (Error ''ConnectionReset''), Timer_fires 3,
           Write_rejects 0 (Error ''ConnectionReset''),
           Connect_resolves 4 (Factory_returns None)] (new_TCPAdapter quiet_options 0))))"
  by (simp add: status_step_def)

section \<open>The duration history\<close>

text \<open>
  C4. The history never holds more than six durations: it holds as many as attempts have
  finished, up to six. Finishing an attempt appends its duration, and removes the oldest
  entry when six are held already. The average signal is \<open>NaN\<close> until an attempt has
  finished and the arithmetic mean of the entries held from then on.
\<close>

theorem duration_history:
  "length (stats_conn_duration (run es (new_TCPAdapter opts t0))) \<le> 6
   \<and> length (stats_conn_duration (run es (new_TCPAdapter opts t0)))
       = min 6 (attempts_finished (run es (new_TCPAdapter opts t0)))
   \<and> stats_conn_duration (finish_attempt t now ss (run es (new_TCPAdapter opts t0)))
       = (if length (stats_conn_duration (run es (new_TCPAdapter opts t0))) < 6
          then stats_conn_duration (run es (new_TCPAdapter opts t0)) @ [now - t]
          else tl (stats_conn_duration (run es (new_TCPAdapter opts t0))) @ [now - t])
   \<and> avg_conn_duration (run es (new_TCPAdapter opts t0))
       = (if attempts_finished (run es (new_TCPAdapter opts t0)) = 0 then NaN
          else Num (sum_list (stats_conn_duration (run es (new_TCPAdapter opts t0)))
                 / real (length (stats_conn_duration (run es (new_TCPAdapter opts t0))))))"
proof -
  define s where "s = run es (new_TCPAdapter opts t0)"
  have inv: "stats_inv s"
    unfolding s_def by (intro stats_inv_run stats_inv_construct)
  then have len: "length (stats_conn_duration s) = min 6 (attempts_finished s)"
    and avg: "avg_conn_duration s = average (stats_conn_duration s)"
    by (simp_all add: stats_inv_def)
  from len have le: "length (stats_conn_duration s) \<le> 6" by simp
  have fifo: "stats_conn_duration (finish_attempt t now ss s)
       = (if length (stats_conn_duration s) < 6 then stats_conn_duration s @ [now - t]
          else tl (stats_conn_duration s) @ [now - t])"
  proof (cases "length (stats_conn_duration s) < 6")
    case True
    then show ?thesis by (simp add: shift_excess_drop)
  next
    case False
    with le have six: "length (stats_conn_duration s) = 6" by simp
    then obtain x xs where "stats_conn_duration s = x # xs"
      by (cases "stats_conn_duration s") simp_all
    with six show ?thesis by (simp add: shift_excess_drop)
  qed
  have empty: "stats_conn_duration s = [] \<longleftrightarrow> attempts_finished s = 0"
    using len by (cases "stats_conn_duration s") auto
  have mean: "avg_conn_duration s = (if attempts_finished s = 0 then NaN
          else Num (sum_list (stats_conn_duration s) / real (length (stats_conn_duration s))))"
    using avg empty by (simp add: average_mean)
  from le len fifo mean show ?thesis unfolding s_def by blast
qed

theorem duration_history_witness:
  "stats_conn_duration (run (refused_attempts
       [(1, 1), (3, 3), (6, 6), (10, 10), (15, 15), (21, 21)]) (new_TCPAdapter quiet_options 0))
     = [1, 2, 3, 4, 5, 6]
   \<and> avg_conn_duration (run (refused_attempts
       [(1, 1), (3, 3), (6, 6), (10, 10), (15, 15), (21, 21)]) (new_TCPAdapter quiet_options 0))
     = Num (7 / 2)
   \<and> stats_conn_duration (finish_attempt 21 28 None (run (refused_attempts
       [(1, 1), (3, 3), (6, 6), (10, 10), (15, 15), (21, 21)]) (new_TCPAdapter quiet_options 0)))
     = [2, 3, 4, 5, 6, 7]"
proof -
  define s where "s = run (refused_attempts
       [(1, 1), (3, 3), (6, 6), (10, 10), (15, 15), (21, 21)]) (new_TCPAdapter quiet_options 0)"
  have st: "stats_conn_duration s = [1, 2, 3, 4, 5, 6]"
    by (simp add: s_def shift_excess_drop)
  have fin: "attempts_finished s = 6"
    by (simp add: s_def attempts_finished_def)
  from duration_history [of "refused_attempts
       [(1, 1), (3, 3), (6, 6), (10, 10), (15, 15), (21, 21)]" quiet_options 0 21 28 None]
  have "avg_conn_duration s = (if attempts_finished s = 0 then NaN
          else Num (sum_list (stats_conn_duration s) / real (length (stats_conn_duration s))))"
    and "stats_conn_duration (finish_attempt 21 28 None s)
       = (if length (stats_conn_duration s) < 6 then stats_conn_duration s @ [28 - 21]
          else tl (stats_conn_duration s) @ [28 - 21])"
    unfolding s_def by blast+
  with st fin show ?thesis unfolding s_def [symmetric] by simp
qed

section \<open>The cleanup of sessions\<close>

text \<open>
  C5. In every reachable state \<^verbatim>\<open>destroy\<close> has been called exactly once for every
  connection whose session was created and whose attempt is over, and never for any
  other connection. A session whose stream is being read has not been destroyed yet, and
  each way of leaving the read loop (the stream ends, the stream fails, \<^verbatim>\<open>recv\<close>
  throws, also on the first chunk or before any) ends with the call of \<^verbatim>\<open>destroy\<close>.
  The rejection of a write does not end the attempt; it changes nothing of this.
\<close>

theorem destroy_called_once:
  "count_list (effects (run es (new_TCPAdapter opts t0))) (Destroy_call c)
     = (if Session_created c \<in> set (effects (run es (new_TCPAdapter opts t0)))
           \<and> reading_conn (loop_at (run es (new_TCPAdapter opts t0))) \<noteq> Some c
        then 1 else 0)
   \<and> (loop_at (run es (new_TCPAdapter opts t0)) = Reading t c ss
        \<and> e \<in> {Stream_ends now, Stream_fails now err, Chunk now d (Recv_throws err)}
      \<longrightarrow> Session_created c \<in> set (effects (run es (new_TCPAdapter opts t0)))
          \<and> count_list (effects (run es (new_TCPAdapter opts t0))) (Destroy_call c) = 0
          \<and> last (effects (step e (run es (new_TCPAdapter opts t0)))) = Destroy_call c
          \<and> loop_at (step e (run es (new_TCPAdapter opts t0))) = Timer_pending)"
proof -
  define s where "s = run es (new_TCPAdapter opts t0)"
  have inv: "session_inv s"
    unfolding s_def by (intro session_inv_run session_inv_construct)
  then have count: "count_list (effects s) (Destroy_call c)
     = (if Session_created c \<in> set (effects s) \<and> reading_conn (loop_at s) \<noteq> Some c
        then 1 else 0)"
    by (simp add: session_inv_def)
  have exits: "Session_created c \<in> set (effects s)
          \<and> count_list (effects s) (Destroy_call c) = 0
          \<and> last (effects (step e s)) = Destroy_call c
          \<and> loop_at (step e s) = Timer_pending"
    if rd: "loop_at s = Reading t c ss"
      and e: "e \<in> {Stream_ends now, Stream_fails now err, Chunk now d (Recv_throws err)}"
  proof -
    from inv rd have ss: "session_conn ss = c" and made: "Session_created c \<in> set (effects s)"
      by (auto simp: session_inv_def)
    from count rd have zero: "count_list (effects s) (Destroy_call c) = 0" by simp
    from e rd ss have "last (effects (step e s)) = Destroy_call c
          \<and> loop_at (step e s) = Timer_pending"
      by (auto simp: Let_def)
    with made zero show ?thesis by simp
  qed
  from count exits show ?thesis unfolding s_def by blast
qed

theorem destroy_called_once_witness:
  "loop_at (run [Connect_resolves 1 (Factory_returns None)] (new_TCPAdapter quiet_options 0))
     = Reading 0 0 \<lparr>session_conn = 0, destroy_throws = None\<rparr>
   \<and> Stream_fails 2 (Error ''ConnectionReset'')
        \<in> {Stream_ends 2, Stream_fails 2 (Error ''ConnectionReset''),
            Chunk 2 [] (Recv_throws (Error ''ConnectionReset''))}
   \<and> count_list (effects (run [Connect_resolves 1 (Factory_returns None)]
         (new_TCPAdapter quiet_options 0))) (Destroy_call 0) = 0
   \<and> last (effects (step (Stream_fails 2 (Error ''ConnectionReset''))
         (run [Connect_resolves 1 (Factory_returns None)] (new_TCPAdapter quiet_options 0))))
       = Destroy_call 0
   \<and> count_list (effects (run [Connect_rejects 1 (Error ''ConnectionRefused'')]
         (new_TCPAdapter quiet_options 0))) (Destroy_call 0) = 0"
proof -
  define es where "es = [Connect_resolves 1 (Factory_returns None)]"
  have rd: "loop_at (run es (new_TCPAdapter quiet_options 0))
     = Reading 0 0 \<lparr>session_conn = 0, destroy_throws = None\<rparr>"
    by (simp add: es_def)
  have mem: "Stream_fails 2 (Error ''ConnectionReset'')
        \<in> {Stream_ends 2, Stream_fails 2 (Error ''ConnectionReset''),
            Chunk 2 [] (Recv_throws (Error ''ConnectionReset''))}"
    by simp
  have none: "Session_created 0 \<notin> set (effects (run [Connect_rejects 1 (Error ''ConnectionRefused'')]
         (new_TCPAdapter quiet_options 0)))"
    by simp
  from destroy_called_once [of es quiet_options 0 0 0
        "\<lparr>session_conn = 0, destroy_throws = None\<rparr>"
        "Stream_fails 2 (Error ''ConnectionReset'')" 2 "Error ''ConnectionReset''" "[]"]
      destroy_called_once [of "[Connect_rejects 1 (Error ''ConnectionRefused'')]"
        quiet_options 0 0]
      rd mem none
  show ?thesis unfolding es_def by simp
qed

section \<open>The classification of errors\<close>

text \<open>
  C6. The details assigned by the error handler: by the name of the error for the five
  names known, unknown error for an error of any other name and for a thrown value that
  is no error object.
\<close>

theorem classifier_table:
  "details (handle_err (Error ''ConnectionRefused'') s) = ECONNREFUSED
   \<and> details (handle_err (Error ''ConnectionReset'') s) = ECONNRESET
   \<and> details (handle_err (Error ''TimedOut'') s) = ETIMEDOUT
   \<and> details (handle_err (Error ''Interrupted'') s) = INTERRUPTED
   \<and> details (handle_err (Error ''ConnectionAborted'') s) = NO_ERROR
   \<and> (name \<notin> {''ConnectionRefused'', ''ConnectionReset'', ''TimedOut'', ''Interrupted'',
          ''ConnectionAborted''}
      \<longrightarrow> details (handle_err (Error name) s) = UNKNOWN_ERROR)
   \<and> details (handle_err Other_value s) = UNKNOWN_ERROR"
  by (simp add: handle_err_details)

theorem classifier_table_witness:
  "''BrokenPipe'' \<notin> {''ConnectionRefused'', ''ConnectionReset'', ''TimedOut'',
      ''Interrupted'', ''ConnectionAborted''}
   \<and> details (handle_err (Error ''BrokenPipe'') (new_TCPAdapter quiet_options 0))
       = UNKNOWN_ERROR
   \<and> details (handle_err (Error ''TimedOut'') (new_TCPAdapter quiet_options 0)) = ETIMEDOUT"
proof -
  have h: "''BrokenPipe'' \<notin> {''ConnectionRefused'', ''ConnectionReset'', ''TimedOut'',
      ''Interrupted'', ''ConnectionAborted''}"
    by simp
  from classifier_table [of "new_TCPAdapter quiet_options 0" "''BrokenPipe''"] h
  show ?thesis by simp
qed

section \<open>The disabled engine: claim\<close>

text \<open>
  C7. With the empty string or \<open>!\<close> as host the constructor does not start the loop:
  whatever events follow, the state stays the initial one, status disconnected, with no
  call made (no connect, no session factory) and no timer pending.
\<close>

theorem disabled_host_never_connects:
  assumes "opt_host opts = [] \<or> opt_host opts = ''!''"
  shows "run es (new_TCPAdapter opts t0) = initial opts
       \<and> status (run es (new_TCPAdapter opts t0)) = DISCONNECTED
       \<and> effects (run es (new_TCPAdapter opts t0)) = []
       \<and> observed (run es (new_TCPAdapter opts t0)) = [(DISCONNECTED, NO_ERROR)]
       \<and> loop_at (run es (new_TCPAdapter opts t0)) = Not_running"
proof -
  from assms have "new_TCPAdapter opts t0 = initial opts"
    by (auto simp: new_TCPAdapter_def)
  then have "run es (new_TCPAdapter opts t0) = initial opts" by (simp add: run_initial)
  then show ?thesis by (simp add: initial_def)
qed

theorem disabled_host_never_connects_witness:
  "(opt_host \<lparr>opt_host = ''!'', opt_port = 1234, opt_verbose = Some True\<rparr> = []
      \<or> opt_host \<lparr>opt_host = ''!'', opt_port = 1234, opt_verbose = Some True\<rparr> = ''!'')
   \<and> status (run [Timer_fires 1, Connect_resolves 2 (Factory_returns None), Send 0 [1]]
        (new_TCPAdapter \<lparr>opt_host = ''!'', opt_port = 1234, opt_verbose = Some True\<rparr> 0))
       = DISCONNECTED
   \<and> effects (run [Timer_fires 1, Connect_resolves 2 (Factory_returns None), Send 0 [1]]
        (new_TCPAdapter \<lparr>opt_host = ''!'', opt_port = 1234, opt_verbose = Some True\<rparr> 0))
       = []"
proof -
  define opts where "opts = \<lparr>opt_host = ''!'', opt_port = 1234, opt_verbose = Some True\<rparr>"
  define es where "es = [Timer_fires 1, Connect_resolves 2 (Factory_returns None), Send 0 [1]]"
  have h: "opt_host opts = [] \<or> opt_host opts = ''!''" by (simp add: opts_def)
  from disabled_host_never_connects [OF h, of es 0]
  have "status (run es (new_TCPAdapter opts 0)) = DISCONNECTED
      \<and> effects (run es (new_TCPAdapter opts 0)) = []"
    by blast
  with h show ?thesis unfolding opts_def es_def by blast
qed

section \<open>The details signal: claim\<close>

text \<open>
  C8. The claim: the details change only together with a change of the status to
  disconnected, never together with a change to connecting or connected. It fails where
  a connect succeeds after a refused one: status and details change together from
  connecting and connection refused to connected and no error.
\<close>

theorem details_reset_on_connect:
  "\<not> successively details_step_strict
       (observed (run [Connect_rejects 1 (Error ''ConnectionRefused''), Timer_fires 2,
          Connect_resolves 3 (Factory_returns None)] (new_TCPAdapter quiet_options 0)))"
  by (simp add: details_step_strict_def handle_err_details)

text \<open>
  C8, amended. Between two successive value pairs of the signals the details change only
  when disconnected is assigned to the status (by the error handler, also when the
  status is disconnected already), or when the status changes to connected, where the
  details are reset to no error; so never together with a change to connecting.
\<close>

theorem details_change_with_status:
  "observed (run es (new_TCPAdapter opts t0)) \<noteq> []
   \<and> last (observed (run es (new_TCPAdapter opts t0)))
       = (status (run es (new_TCPAdapter opts t0)), details (run es (new_TCPAdapter opts t0)))
   \<and> successively details_step (observed (run es (new_TCPAdapter opts t0)))"
proof -
  have "details_inv (run es (new_TCPAdapter opts t0))"
    by (intro details_inv_run details_inv_construct)
  then show ?thesis by (simp add: details_inv_def)
qed

theorem details_change_with_status_witness:
  "observed (run [Connect_rejects 1 (Error ''ConnectionRefused''), Timer_fires 2,
          Connect_resolves 3 (Factory_returns None)] (new_TCPAdapter quiet_options 0))
     = [(DISCONNECTED, NO_ERROR), (CONNECTING, NO_ERROR), (DISCONNECTED, ECONNREFUSED),
        (DISCONNECTED, ECONNREFUSED), (CONNECTING, ECONNREFUSED), (CONNECTED, NO_ERROR)]
   \<and> successively details_step
        [(DISCONNECTED, NO_ERROR), (CONNECTING, NO_ERROR), (DISCONNECTED, ECONNREFUSED),
         (DISCONNECTED, ECONNREFUSED), (CONNECTING, ECONNREFUSED), (CONNECTED, NO_ERROR)]"
proof -
  define es where "es = [Connect_rejects 1 (Error ''ConnectionRefused''), Timer_fires 2,
          Connect_resolves 3 (Factory_returns None)]"
  have obs: "observed (run es (new_TCPAdapter quiet_options 0))
     = [(DISCONNECTED, NO_ERROR), (CONNECTING, NO_ERROR), (DISCONNECTED, ECONNREFUSED),
        (DISCONNECTED, ECONNREFUSED), (CONNECTING, ECONNREFUSED), (CONNECTED, NO_ERROR)]"
    by (simp add: es_def handle_err_details)
  from details_change_with_status [of es quiet_options 0]
  have "successively details_step (observed (run es (new_TCPAdapter quiet_options 0)))"
    by blast
  with obs show ?thesis unfolding es_def by simp
qed

section \<open>Failures end the attempt only\<close>

text \<open>
  C9. A failure during an attempt (the connect is rejected, a socket option call or the
  session factory throws, the stream fails, \<^verbatim>\<open>recv\<close> throws) is handled inside the
  loop: the details are set by the classification of the error, the timer for the next
  attempt is set, and nothing is rejected out of the loop (the one thing that can be is
  what the session's own \<^verbatim>\<open>destroy\<close> throws). When the timer fires the next connect is
  made. With every connect refused, after any number of rounds the engine has made one
  more connect, every attempt has finished with its timer set, nothing was thrown, and
  the details read connection refused.
\<close>

theorem failures_are_absorbed:
  "(loop_at s = Awaiting_connect t
      \<and> e \<in> {Connect_rejects now err, Connect_resolves now (Sockopt_throws err),
               Connect_resolves now (Factory_throws err)}
    \<longrightarrow> loop_at (step e s) = Timer_pending \<and> unhandled (step e s) = unhandled s
        \<and> attempts_finished (step e s) = Suc (attempts_finished s)
        \<and> details (step e s) = details (handle_err err s))
   \<and> (loop_at s = Reading t c ss
      \<and> e \<in> {Stream_fails now err, Chunk now d (Recv_throws err)}
    \<longrightarrow> loop_at (step e s) = Timer_pending
        \<and> unhandled (step e s)
            = unhandled s @ (case destroy_throws ss of None \<Rightarrow> [] | Some x \<Rightarrow> [x])
        \<and> attempts_finished (step e s) = Suc (attempts_finished s)
        \<and> details (step e s) = details (handle_err err s))
   \<and> (loop_at s = Timer_pending
    \<longrightarrow> loop_at (step (Timer_fires now) s) = Awaiting_connect now
        \<and> effects (step (Timer_fires now) s) = effects s @ [Connect_call])
   \<and> (opt_host opts \<noteq> [] \<and> opt_host opts \<noteq> ''!''
    \<longrightarrow> status (run (refused_attempts rs @ [Connect_rejects now (Error ''ConnectionRefused'')])
            (new_TCPAdapter opts t0)) = DISCONNECTED
        \<and> details (run (refused_attempts rs @ [Connect_rejects now (Error ''ConnectionRefused'')])
            (new_TCPAdapter opts t0)) = ECONNREFUSED
        \<and> loop_at (run (refused_attempts rs @ [Connect_rejects now (Error ''ConnectionRefused'')])
            (new_TCPAdapter opts t0)) = Timer_pending
        \<and> unhandled (run (refused_attempts rs @ [Connect_rejects now (Error ''ConnectionRefused'')])
            (new_TCPAdapter opts t0)) = []
        \<and> count_list (effects (run (refused_attempts rs
              @ [Connect_rejects now (Error ''ConnectionRefused'')])
            (new_TCPAdapter opts t0))) Connect_call = Suc (length rs)
        \<and> attempts_finished (run (refused_attempts rs
              @ [Connect_rejects now (Error ''ConnectionRefused'')])
            (new_TCPAdapter opts t0)) = Suc (length rs))"
proof -
  have connect: "loop_at (step e s) = Timer_pending \<and> unhandled (step e s) = unhandled s
        \<and> attempts_finished (step e s) = Suc (attempts_finished s)
        \<and> details (step e s) = details (handle_err err s)"
    if "loop_at s = Awaiting_connect t"
      and "e \<in> {Connect_rejects now err, Connect_resolves now (Sockopt_throws err),
               Connect_resolves now (Factory_throws err)}"
    using that by (auto simp: handle_err_details)
  have reading: "loop_at (step e s) = Timer_pending
        \<and> unhandled (step e s)
            = unhandled s @ (case destroy_throws ss of None \<Rightarrow> [] | Some x \<Rightarrow> [x])
        \<and> attempts_finished (step e s) = Suc (attempts_finished s)
        \<and> details (step e s) = details (handle_err err s)"
    if "loop_at s = Reading t c ss"
      and "e \<in> {Stream_fails now err, Chunk now d (Recv_throws err)}"
    using that by (auto simp: handle_err_details Let_def)
  have timer: "loop_at (step (Timer_fires now) s) = Awaiting_connect now
        \<and> effects (step (Timer_fires now) s) = effects s @ [Connect_call]"
    if "loop_at s = Timer_pending"
    using that by simp
  have refused: "status (run (refused_attempts rs @ [Connect_rejects now (Error ''ConnectionRefused'')])
            (new_TCPAdapter opts t0)) = DISCONNECTED
        \<and> details (run (refused_attempts rs @ [Connect_rejects now (Error ''ConnectionRefused'')])
            (new_TCPAdapter opts t0)) = ECONNREFUSED
        \<and> loop_at (run (refused_attempts rs @ [Connect_rejects now (Error ''ConnectionRefused'')])
            (new_TCPAdapter opts t0)) = Timer_pending
        \<and> unhandled (run (refused_attempts rs @ [Connect_rejects now (Error ''ConnectionRefused'')])
            (new_TCPAdapter opts t0)) = []
        \<and> count_list (effects (run (refused_attempts rs
              @ [Connect_rejects now (Error ''ConnectionRefused'')])
            (new_TCPAdapter opts t0))) Connect_call = Suc (length rs)
        \<and> attempts_finished (run (refused_attempts rs
              @ [Connect_rejects now (Error ''ConnectionRefused'')])
            (new_TCPAdapter opts t0)) = Suc (length rs)"
    if en: "opt_host opts \<noteq> [] \<and> opt_host opts \<noteq> ''!''"
  proof -
    define s0 where "s0 = new_TCPAdapter opts t0"
    define s1 where "s1 = run (refused_attempts rs) s0"
    from en have s0: "loop_at s0 = Awaiting_connect t0" "unhandled s0 = []"
      "effects s0 = [Connect_call]"
      by (simp_all add: s0_def new_TCPAdapter_def initial_def)
    then have f0: "attempts_finished s0 = 0" by (simp add: attempts_finished_def)
    from refused_attempts_run [OF s0(1), of rs] s0 f0
    obtain t' where s1: "loop_at s1 = Awaiting_connect t'" "unhandled s1 = []"
      "count_list (effects s1) Connect_call = Suc (length rs)"
      "attempts_finished s1 = length rs"
      by (auto simp: s1_def)
    have "run (refused_attempts rs @ [Connect_rejects now (Error ''ConnectionRefused'')]) s0
        = step (Connect_rejects now (Error ''ConnectionRefused'')) s1"
      by (simp add: run_append s1_def)
    with s1 show ?thesis unfolding s0_def [symmetric]
      by (simp add: handle_err_details)
  qed
  from connect reading timer refused show ?thesis by blast
qed

theorem failures_are_absorbed_witness:
  "loop_at (new_TCPAdapter quiet_options 0) = Awaiting_connect 0
   \<and> loop_at (step (Connect_rejects 5 (Error ''ConnectionRefused''))
        (new_TCPAdapter quiet_options 0)) = Timer_pending
   \<and> unhandled (step (Connect_rejects 5 (Error ''ConnectionRefused''))
        (new_TCPAdapter quiet_options 0)) = []
   \<and> loop_at (run [Connect_resolves 1 (Factory_returns None)] (new_TCPAdapter quiet_options 0))
       = Reading 0 0 \<lparr>session_conn = 0, destroy_throws = None\<rparr>
   \<and> loop_at (step (Stream_fails 9 (Error ''ConnectionReset''))
        (run [Connect_resolves 1 (Factory_returns None)] (new_TCPAdapter quiet_options 0)))
       = Timer_pending
   \<and> loop_at (step (Timer_fires 6) (run [Connect_rejects 5 (Error ''ConnectionRefused'')]
        (new_TCPAdapter quiet_options 0))) = Awaiting_connect 6
   \<and> opt_host quiet_options \<noteq> [] \<and> opt_host quiet_options \<noteq> ''!''
   \<and> details (run (refused_attempts [(1, 2), (3, 4)]
          @ [Connect_rejects 5 (Error ''ConnectionRefused'')])
        (new_TCPAdapter quiet_options 0)) = ECONNREFUSED
   \<and> count_list (effects (run (refused_attempts [(1, 2), (3, 4)]
          @ [Connect_rejects 5 (Error ''ConnectionRefused'')])
        (new_TCPAdapter quiet_options 0))) Connect_call = 3"
proof -
  define s0 where "s0 = new_TCPAdapter quiet_options 0"
  define s1 where "s1 = run [Connect_resolves 1 (Factory_returns None)] s0"
  define s2 where "s2 = run [Connect_rejects 5 (Error ''ConnectionRefused'')] s0"
  define e1 where "e1 = Connect_rejects 5 (Error ''ConnectionRefused'')"
  define e2 where "e2 = Stream_fails 9 (Error ''ConnectionReset'')"
  define ss where "ss = \<lparr>session_conn = 0, destroy_throws = None :: thrown option\<rparr>"
  define rs where "rs = [(1 :: real, 2 :: real), (3, 4)]"
  have h1: "loop_at s0 = Awaiting_connect 0" by (simp add: s0_def)
  have m1: "e1 \<in> {Connect_rejects 5 (Error ''ConnectionRefused''),
      Connect_resolves 5 (Sockopt_throws (Error ''ConnectionRefused'')),
      Connect_resolves 5 (Factory_throws (Error ''ConnectionRefused''))}"
    by (simp add: e1_def)
  have u0: "unhandled s0 = []" by (simp add: s0_def)
  have h2: "loop_at s1 = Reading 0 0 ss" by (simp add: s1_def s0_def ss_def)
  have m2: "e2 \<in> {Stream_fails 9 (Error ''ConnectionReset''),
      Chunk 9 [] (Recv_throws (Error ''ConnectionReset''))}"
    by (simp add: e2_def)
  have h3: "loop_at s2 = Timer_pending" by (simp add: s2_def s0_def)
  have h4: "opt_host quiet_options \<noteq> [] \<and> opt_host quiet_options \<noteq> ''!''"
    by (simp add: quiet_options_def)
  from failures_are_absorbed [where s = s0 and t = 0 and e = e1 and now = 5
      and err = "Error ''ConnectionRefused''"] h1 m1
  have c1: "loop_at (step e1 s0) = Timer_pending \<and> unhandled (step e1 s0) = unhandled s0"
    by blast
  from failures_are_absorbed [where s = s1 and t = 0 and e = e2 and now = 9
      and err = "Error ''ConnectionReset''" and c = 0 and ss = ss and d = "[]"] h2 m2
  have c2: "loop_at (step e2 s1) = Timer_pending" by blast
  from failures_are_absorbed [where s = s2 and now = 6] h3
  have c3: "loop_at (step (Timer_fires 6) s2) = Awaiting_connect 6" by blast
  from failures_are_absorbed [where now = 5 and opts = quiet_options and rs = rs and ?t0.0 = 0] h4
  have c4: "details (run (refused_attempts rs @ [Connect_rejects 5 (Error ''ConnectionRefused'')])
        (new_TCPAdapter quiet_options 0)) = ECONNREFUSED
      \<and> count_list (effects (run (refused_attempts rs
          @ [Connect_rejects 5 (Error ''ConnectionRefused'')])
        (new_TCPAdapter quiet_options 0))) Connect_call = Suc (length rs)"
    by blast
  have l: "Suc (length rs) = 3" by (simp add: rs_def)
  from h1 c1 u0 h2 c2 c3 h4 c4 l show ?thesis
    unfolding s0_def s1_def s2_def e1_def e2_def ss_def rs_def by simp
qed

section \<open>A failed write on the current connection\<close>

text \<open>
  C10. When a write on the current connection is rejected while the loop reads that
  connection's stream, the handler sets the status to disconnected and the details by
  the classification of the error, at once; the loop stays where it is, the connection
  stays the current one, and the next chunk is handed to \<^verbatim>\<open>recv\<close> with the status
  reading disconnected.
\<close>

theorem write_failure_while_reading:
  assumes "loop_at s = Reading t c ss" and "current_conn s = Some c"
    and "c \<in> set (writes_pending s)"
  shows "status (step (Write_rejects c err) s) = DISCONNECTED
       \<and> details (step (Write_rejects c err) s) = details (handle_err err s)
       \<and> loop_at (step (Write_rejects c err) s) = Reading t c ss
       \<and> current_conn (step (Write_rejects c err) s) = Some c
       \<and> effects (step (Write_rejects c err) s) = effects s
       \<and> effects (step (Chunk now data Recv_returns) (step (Write_rejects c err) s))
           = effects s @ [Recv_call (session_conn ss) data]
       \<and> status (step (Chunk now data Recv_returns) (step (Write_rejects c err) s))
           = DISCONNECTED"
  using assms by (simp add: Let_def handle_err_details)

theorem write_failure_while_reading_witness:
  "loop_at (run [Connect_resolves 1 (Factory_returns None), Send 0 [72, 105]]
       (new_TCPAdapter quiet_options 0))
     = Reading 0 0 \<lparr>session_conn = 0, destroy_throws = None\<rparr>
   \<and> current_conn (run [Connect_resolves 1 (Factory_returns None), Send 0 [72, 105]]
       (new_TCPAdapter quiet_options 0)) = Some 0
   \<and> 0 \<in> set (writes_pending (run [Connect_resolves 1 (Factory_returns None),
       Send 0 [72, 105]] (new_TCPAdapter quiet_options 0)))
   \<and> status (run [Connect_resolves 1 (Factory_returns None), Send 0 [72, 105]]
       (new_TCPAdapter quiet_options 0)) = CONNECTED
   \<and> status (step (Write_rejects 0 (Error ''ConnectionReset''))
       (run [Connect_resolves 1 (Factory_returns None), Send 0 [72, 105]]
          (new_TCPAdapter quiet_options 0))) = DISCONNECTED
   \<and> details (step (Write_rejects 0 (Error ''ConnectionReset''))
       (run [Connect_resolves 1 (Factory_returns None), Send 0 [72, 105]]
          (new_TCPAdapter quiet_options 0))) = ECONNRESET
   \<and> effects (step (Chunk 3 [79, 75] Recv_returns)
       (step (Write_rejects 0 (Error ''ConnectionReset''))
          (run [Connect_resolves 1 (Factory_returns None), Send 0 [72, 105]]
             (new_TCPAdapter quiet_options 0))))
     = [Connect_call, Factory_call 0, Session_created 0, Write_call 0 [72, 105],
        Recv_call 0 [79, 75]]"
proof -
  define s where "s = run [Connect_resolves 1 (Factory_returns None), Send 0 [72, 105]]
       (new_TCPAdapter quiet_options 0)"
  have h1: "loop_at s = Reading 0 0 \<lparr>session_conn = 0, destroy_throws = None\<rparr>"
    by (simp add: s_def)
  have h2: "current_conn s = Some 0" by (simp add: s_def)
  have h3: "0 \<in> set (writes_pending s)" by (simp add: s_def)
  have h4: "status s = CONNECTED" by (simp add: s_def)
  have h5: "effects s = [Connect_call, Factory_call 0, Session_created 0,
      Write_call 0 [72, 105]]"
    by (simp add: s_def)
  have h6: "details (handle_err (Error ''ConnectionReset'') s) = ECONNRESET"
    by (simp add: handle_err_details)
  from write_failure_while_reading [OF h1 h2 h3, of "Error ''ConnectionReset''" 3 "[79, 75]"]
    h1 h2 h3 h4 h5 h6
  show ?thesis unfolding s_def [symmetric] by simp
qed

end
